theory Spec2Isabelle
  imports Main
begin

section \<open>JavaScript values\<close>

text \<open>
  The page handles untyped JSON: response bodies, \<^verbatim>\<open>final_output\<close> and whatever
  \<^verbatim>\<open>JSON.parse\<close> returns. A value is one of the JSON shapes, or \<^verbatim>\<open>undefined\<close>, which
  reading an absent property yields. Numbers are the integer-valued ones; an object is the
  list of its entries in the order \<^verbatim>\<open>Object.entries\<close> lists them, with distinct keys.
\<close>

datatype jsval =
    JUndefined
  | JNull
  | JBool bool
  | JNum int
  | JStr string
  | JArr "jsval list"
  | JObj "(string \<times> jsval) list"

text \<open>
  What a \<^verbatim>\<open>try\<close> block of the page can catch. \<open>Unmodelled\<close> and \<open>Fuel\<close> are not
  JavaScript errors: the first marks an operation on operands that this development does
  not represent, the second an exhausted recursion budget of the parser below.
\<close>

datatype js_error = SyntaxError | TypeError | Unmodelled | Fuel

text \<open>Truthiness, as \<^verbatim>\<open>if (v)\<close>, \<^verbatim>\<open>!v\<close>, \<^verbatim>\<open>v && ...\<close> and \<^verbatim>\<open>v || ...\<close> test it.\<close>

fun truthy :: "jsval \<Rightarrow> bool" where
  "truthy JUndefined = False"
| "truthy JNull = False"
| "truthy (JBool b) = b"
| "truthy (JNum n) = (n \<noteq> 0)"
| "truthy (JStr s) = (s \<noteq> [])"
| "truthy (JArr xs) = True"
| "truthy (JObj kvs) = True"

text \<open>
  \<^verbatim>\<open>v.k\<close> for the keys the page reads (none of them is defined by a prototype): a
  \<^verbatim>\<open>TypeError\<close> on \<^verbatim>\<open>null\<close> and \<^verbatim>\<open>undefined\<close>, the entry of an object, and
  \<^verbatim>\<open>undefined\<close> otherwise. \<open>opt_prop\<close> is \<^verbatim>\<open>v?.k\<close>.
\<close>

fun js_get :: "jsval \<Rightarrow> string \<Rightarrow> js_error + jsval" where
  "js_get JUndefined k = Inl TypeError"
| "js_get JNull k = Inl TypeError"
| "js_get (JObj kvs) k = Inr (case map_of kvs k of Some v \<Rightarrow> v | None \<Rightarrow> JUndefined)"
| "js_get v k = Inr JUndefined"

definition opt_prop :: "jsval \<Rightarrow> string \<Rightarrow> jsval" where
  "opt_prop v k = (case js_get v k of Inl e \<Rightarrow> JUndefined | Inr x \<Rightarrow> x)"

text \<open>\<^verbatim>\<open>typeof v === 'object'\<close> (which holds of \<^verbatim>\<open>null\<close>) and \<^verbatim>\<open>'k' in v\<close>.\<close>

fun typeof_object :: "jsval \<Rightarrow> bool" where
  "typeof_object JNull = True"
| "typeof_object (JArr xs) = True"
| "typeof_object (JObj kvs) = True"
| "typeof_object v = False"

fun has_key :: "string \<Rightarrow> jsval \<Rightarrow> bool" where
  "has_key k (JObj kvs) = (map_of kvs k \<noteq> None)"
| "has_key k v = False"

definition js_or :: "jsval \<Rightarrow> jsval \<Rightarrow> jsval" where
  "js_or a b = (if truthy a then a else b)"

text \<open>\<^verbatim>\<open>a + b\<close> on two numbers; on other operands JavaScript converts and may concatenate.\<close>

fun js_plus :: "jsval \<Rightarrow> jsval \<Rightarrow> js_error + jsval" where
  "js_plus (JNum a) (JNum b) = Inr (JNum (a + b))"
| "js_plus a b = Inl Unmodelled"

fun decimal :: "nat \<Rightarrow> string" where
  "decimal n =
     (if n < 10 then [''0123456789'' ! n]
      else decimal (n div 10) @ [''0123456789'' ! (n mod 10)])"

definition Number_toString :: "int \<Rightarrow> string" where
  "Number_toString i = (if i < 0 then CHR ''-'' # decimal (nat (- i)) else decimal (nat i))"

definition Boolean_toString :: "bool \<Rightarrow> string" where
  "Boolean_toString b = (if b then ''true'' else ''false'')"

fun join :: "string \<Rightarrow> string list \<Rightarrow> string" where
  "join sep [] = []"
| "join sep [x] = x"
| "join sep (x # y # ys) = x @ sep @ join sep (y # ys)"

definition repeat :: "string \<Rightarrow> nat \<Rightarrow> string" where
  "repeat s n = concat (replicate n s)"

section \<open>jsonToMarkdown\<close>

text \<open>
  \<^verbatim>\<open>formatValue\<close> and \<^verbatim>\<open>jsonToMarkdown\<close> of \<^verbatim>\<open>page.tsx\<close> (lines 39 to 85; the second
  source file has the same body). The tests come in the source's order: \<^verbatim>\<open>null\<close> and
  \<^verbatim>\<open>undefined\<close>, string, number and boolean, array, object. An entry whose value is an
  object that is neither \<^verbatim>\<open>null\<close> nor an array goes on a line of its own.
\<close>

fun is_plain_object :: "jsval \<Rightarrow> bool" where
  "is_plain_object (JObj kvs) = True"
| "is_plain_object v = False"

fun formatValue :: "jsval \<Rightarrow> nat \<Rightarrow> string" where
  "formatValue JUndefined depth = ''null''"
| "formatValue JNull depth = ''null''"
| "formatValue (JStr s) depth = s"
| "formatValue (JNum n) depth = Number_toString n"
| "formatValue (JBool b) depth = Boolean_toString b"
| "formatValue (JArr items) depth =
     (if items = [] then ''[]''
      else join [CHR 0x0A]
             (map (\<lambda>item. repeat ''  '' depth @ ''- '' @ formatValue item (depth + 1)) items))"
| "formatValue (JObj entries) depth =
     (if entries = [] then ''{}''
      else join [CHR 0x0A, CHR 0x0A]
             (map (\<lambda>(key, val).
                     if is_plain_object val
                     then repeat ''  '' depth @ ''**'' @ key @ '':**'' @ [CHR 0x0A]
                            @ formatValue val (depth + 1)
                     else repeat ''  '' depth @ ''**'' @ key @ '':** ''
                            @ formatValue val (depth + 1))
                  entries))"

definition jsonToMarkdown :: "jsval \<Rightarrow> string" where
  "jsonToMarkdown data =
     (if \<not> truthy data then []
      else case data of JStr s \<Rightarrow> s | _ \<Rightarrow> formatValue data 0)"

section \<open>JSON.parse\<close>

text \<open>
  The runtime's \<^verbatim>\<open>JSON.parse\<close> is not code of the page. The functions that call it take
  the parser as an argument; \<open>JSON_parse\<close> below is a recursive-descent reading of the JSON
  grammar that the worked examples are evaluated with. It is exact on texts whose numbers are
  integer literals and whose strings have no \<^verbatim>\<open>\u\<close> escape, answers \<open>Inl Unmodelled\<close> on
  the others, and lists the members of an object in the order of the text, a repeated key
  keeping its place and taking the later value. The recursion budget is the length of
  the text; running out of it is reported as \<open>Inl Fuel\<close>, never as a syntax error.
\<close>

definition is_ws :: "char \<Rightarrow> bool" where
  "is_ws c = (c \<in> set [CHR 0x20, CHR 0x09, CHR 0x0A, CHR 0x0D])"

definition skip_ws :: "string \<Rightarrow> string" where
  "skip_ws cs = dropWhile is_ws cs"

definition is_digit :: "char \<Rightarrow> bool" where
  "is_digit c = (c \<in> set ''0123456789'')"

definition digit_val :: "char \<Rightarrow> nat" where
  "digit_val c = of_char c - 48"

fun escape :: "char \<Rightarrow> char option" where
  "escape c =
     (if c = CHR 0x22 then Some (CHR 0x22)
      else if c = CHR 0x5C then Some (CHR 0x5C)
      else if c = CHR ''/'' then Some (CHR ''/'')
      else if c = CHR ''b'' then Some (CHR 0x08)
      else if c = CHR ''f'' then Some (CHR 0x0C)
      else if c = CHR ''n'' then Some (CHR 0x0A)
      else if c = CHR ''r'' then Some (CHR 0x0D)
      else if c = CHR ''t'' then Some (CHR 0x09)
      else None)"

text \<open>The characters of a string after its opening quote, up to the closing one.\<close>

fun parse_chars :: "string \<Rightarrow> string \<Rightarrow> js_error + (string \<times> string)" where
  "parse_chars acc [] = Inl SyntaxError"
| "parse_chars acc (c # cs) =
     (if c = CHR 0x22 then Inr (rev acc, cs)
      else if c = CHR 0x5C then
        (case cs of
           [] \<Rightarrow> Inl SyntaxError
         | e # cs' \<Rightarrow>
             if e = CHR ''u'' then Inl Unmodelled
             else (case escape e of
                     None \<Rightarrow> Inl SyntaxError
                   | Some x \<Rightarrow> parse_chars (x # acc) cs'))
      else if (of_char c :: nat) < 32 then Inl SyntaxError
      else parse_chars (c # acc) cs)"

fun parse_digits :: "nat \<Rightarrow> string \<Rightarrow> nat \<times> string" where
  "parse_digits n [] = (n, [])"
| "parse_digits n (c # cs) =
     (if is_digit c then parse_digits (10 * n + digit_val c) cs else (n, c # cs))"

text \<open>An integer literal without sign: \<^verbatim>\<open>0\<close>, or digits that do not start with \<^verbatim>\<open>0\<close>.\<close>

definition parse_nat :: "string \<Rightarrow> js_error + (nat \<times> string)" where
  "parse_nat cs =
     (case cs of
        [] \<Rightarrow> Inl SyntaxError
      | c # cs' \<Rightarrow>
          if is_digit c then
            (case (if c = CHR ''0'' then (0, cs') else parse_digits 0 cs) of
               (n, rest) \<Rightarrow>
                 (case rest of
                    [] \<Rightarrow> Inr (n, rest)
                  | d # _ \<Rightarrow>
                      if d \<in> set ''.eE'' then Inl Unmodelled else Inr (n, rest)))
          else Inl SyntaxError)"

definition parse_number :: "string \<Rightarrow> js_error + (jsval \<times> string)" where
  "parse_number cs =
     (case cs of
        [] \<Rightarrow> Inl SyntaxError
      | c # cs' \<Rightarrow>
          if c = CHR ''-'' then
            (case parse_nat cs' of
               Inl e \<Rightarrow> Inl e
             | Inr (n, rest) \<Rightarrow> Inr (JNum (- int n), rest))
          else
            (case parse_nat cs of
               Inl e \<Rightarrow> Inl e
             | Inr (n, rest) \<Rightarrow> Inr (JNum (int n), rest)))"

definition parse_literal :: "string \<Rightarrow> js_error + (jsval \<times> string)" where
  "parse_literal cs =
     (if take 4 cs = ''true'' then Inr (JBool True, drop 4 cs)
      else if take 5 cs = ''false'' then Inr (JBool False, drop 5 cs)
      else if take 4 cs = ''null'' then Inr (JNull, drop 4 cs)
      else Inl SyntaxError)"

definition set_prop :: "string \<Rightarrow> jsval \<Rightarrow> (string \<times> jsval) list \<Rightarrow> (string \<times> jsval) list" where
  "set_prop k v kvs =
     (if map_of kvs k = None then kvs @ [(k, v)]
      else map (\<lambda>(k', v'). if k' = k then (k', v) else (k', v')) kvs)"

fun parse_value :: "nat \<Rightarrow> string \<Rightarrow> js_error + (jsval \<times> string)"
  and parse_elements :: "nat \<Rightarrow> jsval list \<Rightarrow> string \<Rightarrow> js_error + (jsval \<times> string)"
  and parse_members :: "nat \<Rightarrow> (string \<times> jsval) list \<Rightarrow> string \<Rightarrow> js_error + (jsval \<times> string)"
where
  "parse_value 0 cs = Inl Fuel"
| "parse_value (Suc n) cs =
     (case skip_ws cs of
        [] \<Rightarrow> Inl SyntaxError
      | c # rest \<Rightarrow>
          if c = CHR ''{'' then
            (case skip_ws rest of
               [] \<Rightarrow> Inl SyntaxError
             | d # rest' \<Rightarrow>
                 if d = CHR ''}'' then Inr (JObj [], rest') else parse_members n [] rest)
          else if c = CHR ''['' then
            (case skip_ws rest of
               [] \<Rightarrow> Inl SyntaxError
             | d # rest' \<Rightarrow>
                 if d = CHR '']'' then Inr (JArr [], rest') else parse_elements n [] rest)
          else if c = CHR 0x22 then
            (case parse_chars [] rest of
               Inl e \<Rightarrow> Inl e
             | Inr (s, rest') \<Rightarrow> Inr (JStr s, rest'))
          else if c = CHR ''-'' then parse_number (c # rest)
          else if is_digit c then parse_number (c # rest)
          else parse_literal (c # rest))"
| "parse_elements 0 acc cs = Inl Fuel"
| "parse_elements (Suc n) acc cs =
     (case parse_value n cs of
        Inl e \<Rightarrow> Inl e
      | Inr (v, rest) \<Rightarrow>
          (case skip_ws rest of
             [] \<Rightarrow> Inl SyntaxError
           | d # rest' \<Rightarrow>
               if d = CHR '','' then parse_elements n (acc @ [v]) rest'
               else if d = CHR '']'' then Inr (JArr (acc @ [v]), rest')
               else Inl SyntaxError))"
| "parse_members 0 acc cs = Inl Fuel"
| "parse_members (Suc n) acc cs =
     (case skip_ws cs of
        [] \<Rightarrow> Inl SyntaxError
      | q # rest \<Rightarrow>
          if q = CHR 0x22 then
            (case parse_chars [] rest of
               Inl e \<Rightarrow> Inl e
             | Inr (k, rest1) \<Rightarrow>
                 (case skip_ws rest1 of
                    [] \<Rightarrow> Inl SyntaxError
                  | colon # rest2 \<Rightarrow>
                      if colon = CHR '':'' then
                        (case parse_value n rest2 of
                           Inl e \<Rightarrow> Inl e
                         | Inr (v, rest3) \<Rightarrow>
                             (case skip_ws rest3 of
                                [] \<Rightarrow> Inl SyntaxError
                              | d # rest4 \<Rightarrow>
                                  if d = CHR '','' then parse_members n (set_prop k v acc) rest4
                                  else if d = CHR ''}'' then Inr (JObj (set_prop k v acc), rest4)
                                  else Inl SyntaxError))
                      else Inl SyntaxError))
          else Inl SyntaxError)"

definition JSON_parse :: "string \<Rightarrow> js_error + jsval" where
  "JSON_parse text =
     (case parse_value (Suc (length text)) text of
        Inl e \<Rightarrow> Inl e
      | Inr (v, rest) \<Rightarrow> if skip_ws rest = [] then Inr v else Inl SyntaxError)"

section \<open>The result normalizer\<close>

text \<open>
  The results view of \<^verbatim>\<open>page.tsx\<close> resolves the travel data for the cards (lines 574 to
  598) and the text of the summary panel (lines 836 to 893) in two immediately-invoked
  functions of \<^verbatim>\<open>planState.final_output\<close>. The second source file has both in a typed
  variant (lines 599 to 624 and 862 to 919) that tests \<^verbatim>\<open>'value' in final_output\<close> and
  \<^verbatim>\<open>'summary' in final_output\<close> where \<^verbatim>\<open>page.tsx\<close> tests the truthiness of the property;
  the variants are embedded side by side, the typed one under the suffix \<open>_typed\<close>.
  The view calls them when the plan state is \<^verbatim>\<open>COMPLETE\<close> and \<^verbatim>\<open>final_output\<close> is truthy
  (lines 567 and 570); the definitions say what the functions return on any argument.

  \<open>parse_or_null\<close> is \<^verbatim>\<open>try { travelData = JSON.parse(s) } catch { }\<close> on a
  \<^verbatim>\<open>travelData\<close> that starts as \<^verbatim>\<open>null\<close>.
\<close>

definition parse_or_null :: "(string \<Rightarrow> js_error + jsval) \<Rightarrow> string \<Rightarrow> jsval" where
  "parse_or_null parse s = (case parse s of Inl e \<Rightarrow> JNull | Inr v \<Rightarrow> v)"

definition travelData_of :: "(string \<Rightarrow> js_error + jsval) \<Rightarrow> jsval \<Rightarrow> js_error + jsval" where
  "travelData_of parse final_output =
     (case final_output of
        JStr s \<Rightarrow> Inr (parse_or_null parse s)
      | _ \<Rightarrow>
          (case js_get final_output ''value'' of
             Inl e \<Rightarrow> Inl e
           | Inr v \<Rightarrow>
               if truthy v then
                 (case v of
                    JStr s \<Rightarrow> Inr (parse_or_null parse s)
                  | _ \<Rightarrow> Inr v)
               else Inr final_output))"

definition travelData_of_typed :: "(string \<Rightarrow> js_error + jsval) \<Rightarrow> jsval \<Rightarrow> jsval" where
  "travelData_of_typed parse final_output =
     (case final_output of
        JStr s \<Rightarrow> parse_or_null parse s
      | _ \<Rightarrow>
          if truthy final_output \<and> typeof_object final_output \<and> has_key ''value'' final_output
          then
            (case opt_prop final_output ''value'' of
               JStr s \<Rightarrow> parse_or_null parse s
             | v \<Rightarrow> v)
          else final_output)"

text \<open>
  What the summary panel hands to the markdown component: a value as it is, or the overview
  that lines 865 to 892 assemble from the travel data. The text of the overview goes through
  \<^verbatim>\<open>toLocaleDateString\<close> and \<^verbatim>\<open>toLocaleString\<close>, so it is kept as the data it is built from.
\<close>

datatype summary = Display jsval | Synthesised jsval

definition summary_of_data :: "jsval \<Rightarrow> jsval \<Rightarrow> summary" where
  "summary_of_data final_output travelData =
     (if \<not> truthy travelData then Display (JStr (jsonToMarkdown final_output))
      else Synthesised travelData)"

definition summary_of :: "(string \<Rightarrow> js_error + jsval) \<Rightarrow> jsval \<Rightarrow> summary" where
  "summary_of parse final_output =
     (if truthy (opt_prop final_output ''summary'') then Display (opt_prop final_output ''summary'')
      else
        (case final_output of
           JStr s \<Rightarrow>
             (case parse s of
                Inl e \<Rightarrow> Display (JStr (jsonToMarkdown final_output))
              | Inr v \<Rightarrow> summary_of_data final_output v)
         | _ \<Rightarrow>
             if truthy (opt_prop final_output ''value'') then
               (case opt_prop final_output ''value'' of
                  JStr s \<Rightarrow>
                    (case parse s of
                       Inl e \<Rightarrow> Display (JStr s)
                     | Inr v \<Rightarrow> summary_of_data final_output v)
                | v \<Rightarrow> summary_of_data final_output v)
             else summary_of_data final_output JNull))"

definition summary_of_typed :: "(string \<Rightarrow> js_error + jsval) \<Rightarrow> jsval \<Rightarrow> summary" where
  "summary_of_typed parse final_output =
     (if typeof_object final_output \<and> final_output \<noteq> JNull \<and> has_key ''summary'' final_output
      then Display (opt_prop final_output ''summary'')
      else
        (case final_output of
           JStr s \<Rightarrow>
             (case parse s of
                Inl e \<Rightarrow> Display (JStr (jsonToMarkdown final_output))
              | Inr v \<Rightarrow> summary_of_data final_output v)
         | _ \<Rightarrow>
             if truthy final_output \<and> typeof_object final_output \<and> has_key ''value'' final_output
             then
               (case opt_prop final_output ''value'' of
                  JStr s \<Rightarrow>
                    (case parse s of
                       Inl e \<Rightarrow> Display (JStr s)
                     | Inr v \<Rightarrow> summary_of_data final_output v)
                | v \<Rightarrow> summary_of_data final_output v)
             else summary_of_data final_output JNull))"

text \<open>
  The total of lines 793 to 795 and 886 to 888, the same expression in both files:
  \<^verbatim>\<open>(travelData.departureFlight?.price || 0) + (travelData.returnFlight?.price || 0) +
  (travelData.accommodation?.price || 0)\<close>.
\<close>

definition price_or_0 :: "jsval \<Rightarrow> jsval" where
  "price_or_0 part = js_or (opt_prop part ''price'') (JNum 0)"

definition totalCost :: "jsval \<Rightarrow> js_error + jsval" where
  "totalCost travelData =
     (case js_get travelData ''departureFlight'' of
        Inl e \<Rightarrow> Inl e
      | Inr dep \<Rightarrow>
          (case js_get travelData ''returnFlight'' of
             Inl e \<Rightarrow> Inl e
           | Inr ret \<Rightarrow>
               (case js_get travelData ''accommodation'' of
                  Inl e \<Rightarrow> Inl e
                | Inr acc \<Rightarrow>
                    (case js_plus (price_or_0 dep) (price_or_0 ret) of
                       Inl e \<Rightarrow> Inl e
                     | Inr flights \<Rightarrow> js_plus flights (price_or_0 acc)))))"

text \<open>The two payloads of the worked examples, as the texts the server sends.\<close>

definition departure_text :: string where
  \<open>departure_text = ''{"departureFlight":{"Airline":"Acme","price":1000,"departTime":"2025-03-15T10:00:00Z","arrivalTime":"2025-03-15T12:00:00Z"}}''\<close>

definition accommodation_text :: string where
  \<open>accommodation_text = ''{"accommodation":{"HotelName":"X","price":500}}''\<close>

text \<open>The values that \<^verbatim>\<open>JSON.parse\<close> returns on them.\<close>

definition departure_data :: jsval where
  "departure_data =
     JObj [(''departureFlight'',
            JObj [(''Airline'', JStr ''Acme''), (''price'', JNum 1000),
                  (''departTime'', JStr ''2025-03-15T10:00:00Z''),
                  (''arrivalTime'', JStr ''2025-03-15T12:00:00Z'')])]"

definition accommodation_data :: jsval where
  "accommodation_data =
     JObj [(''accommodation'', JObj [(''HotelName'', JStr ''X''), (''price'', JNum 500)])]"

section \<open>The wizard and the poller\<close>

text \<open>
  The component keeps four state variables (lines 88 to 98 of \<^verbatim>\<open>page.tsx\<close>). Around them
  the record holds what the runtime keeps for the page: the interval timers that are active,
  the requests in flight, the next timer handle, and the plan ids of the status requests
  issued so far.

  Every render binds \<^verbatim>\<open>pollingInterval\<close> as a constant, and \<^verbatim>\<open>pollPlanState\<close>,
  \<^verbatim>\<open>startPolling\<close> and \<^verbatim>\<open>startPlanning\<close> are closures of their render. A click runs the
  handler of the render on screen, so it reads the current state; the part of an
  \<^verbatim>\<open>async\<close> function that runs after an \<^verbatim>\<open>await\<close>, and the callback of a timer, still read
  the \<^verbatim>\<open>pollingInterval\<close> of the render that created them. That value travels with each
  request and each timer as its last component. The assignments to the other variables
  do not read the old state.

  The handlers are the same in both source files, except for the address of the service and
  the period of the timer (7500 and 20000 milliseconds), neither of which is represented:
  an elapsed period is the event \<open>Tick\<close>.
\<close>

record TravelFormData =
  origin :: string
  destination :: string
  departure_date :: string
  return_date :: string
  cabin_class :: string
  passengers :: int

definition default_formData :: TravelFormData where
  "default_formData =
     \<lparr>origin = [], destination = [], departure_date = [], return_date = [],
      cabin_class = ''economy'', passengers = 1\<rparr>"

text \<open>
  A response is a network failure or a status with the body as \<^verbatim>\<open>response.json()\<close> reads
  it, \<open>None\<close> when that throws. \<^verbatim>\<open>response.ok\<close> holds of the statuses 200 to 299.
\<close>

datatype response = NetworkError | Http nat "jsval option"

definition response_ok :: "nat \<Rightarrow> bool" where
  "response_ok status = (200 \<le> status \<and> status \<le> 299)"

datatype request =
    StartRequest TravelFormData "nat option"
  | PollRequest jsval "nat option"

record page =
  currentStep :: nat
  formData :: TravelFormData
  planState :: jsval
  pollingInterval :: "nat option"
  timers :: "(nat \<times> jsval \<times> nat option) list"
  requests :: "request list"
  next_timer :: nat
  status_fetches :: "jsval list"

definition steps :: "string list" where
  "steps = [''destination'', ''dates'', ''details'', ''processing'', ''results'']"

definition initial_page :: page where
  "initial_page =
     \<lparr>currentStep = 0, formData = default_formData, planState = JNull,
      pollingInterval = None, timers = [], requests = [], next_timer = 1,
      status_fetches = []\<rparr>"

definition clearInterval :: "nat \<Rightarrow> page \<Rightarrow> page" where
  "clearInterval h s = s\<lparr>timers := filter (\<lambda>t. fst t \<noteq> h) (timers s)\<rparr>"

text \<open>
  \<^verbatim>\<open>pollPlanState\<close> (lines 116 to 179) up to its \<^verbatim>\<open>await fetch(...)\<close>, and from there on.
  A failed fetch, a status outside 200 to 299, a body that is not JSON and the body
  \<^verbatim>\<open>null\<close> (reading \<^verbatim>\<open>state.status_message\<close> throws) all end the call with nothing
  assigned. The logging of lines 139 to 157 neither assigns nor throws.
\<close>

definition pollPlanState_fetch :: "nat option \<Rightarrow> jsval \<Rightarrow> page \<Rightarrow> page" where
  "pollPlanState_fetch captured planRunId s =
     s\<lparr>requests := requests s @ [PollRequest planRunId captured],
       status_fetches := status_fetches s @ [planRunId]\<rparr>"

definition terminal :: "jsval \<Rightarrow> bool" where
  "terminal state =
     (opt_prop state ''state'' = JStr ''COMPLETE'' \<or> opt_prop state ''state'' = JStr ''FAILED'')"

definition pollPlanState_resume :: "nat option \<Rightarrow> response \<Rightarrow> page \<Rightarrow> page" where
  "pollPlanState_resume captured r s =
     (case r of
        NetworkError \<Rightarrow> s
      | Http status body \<Rightarrow>
          if response_ok status then
            (case body of
               None \<Rightarrow> s
             | Some state \<Rightarrow>
                 (case js_get state ''status_message'' of
                    Inl e \<Rightarrow> s
                  | Inr message \<Rightarrow>
                      if terminal state then
                        (case captured of
                           Some h \<Rightarrow> (clearInterval h (s\<lparr>planState := state\<rparr>))\<lparr>pollingInterval := None\<rparr>
                         | None \<Rightarrow> s\<lparr>planState := state\<rparr>)
                        \<lparr>currentStep := 4\<rparr>
                      else s\<lparr>planState := state\<rparr>))
          else s)"

text \<open>\<^verbatim>\<open>startPolling\<close> (lines 182 to 199).\<close>

definition startPolling :: "nat option \<Rightarrow> jsval \<Rightarrow> page \<Rightarrow> page" where
  "startPolling captured planRunId s =
     (let s1 = (case captured of Some h \<Rightarrow> clearInterval h s | None \<Rightarrow> s);
          s2 = pollPlanState_fetch captured planRunId s1;
          interval = next_timer s2;
          s3 = s2\<lparr>timers := timers s2 @ [(interval, planRunId, captured)],
                  next_timer := Suc interval\<rparr>
      in s3\<lparr>pollingInterval := Some interval\<rparr>)"

text \<open>\<^verbatim>\<open>nextStep\<close> and \<^verbatim>\<open>prevStep\<close> (lines 211 to 221).\<close>

definition nextStep :: "page \<Rightarrow> page" where
  "nextStep s =
     (if currentStep s < length steps - 1 then s\<lparr>currentStep := currentStep s + 1\<rparr> else s)"

definition prevStep :: "page \<Rightarrow> page" where
  "prevStep s = (if currentStep s > 0 then s\<lparr>currentStep := currentStep s - 1\<rparr> else s)"

text \<open>
  \<^verbatim>\<open>startPlanning\<close> (lines 223 to 267) up to its \<^verbatim>\<open>await fetch(...)\<close>, and from there on.
  A status outside 200 to 299 throws into the \<^verbatim>\<open>catch\<close> of the function, which logs. On
  the body \<^verbatim>\<open>null\<close> the plan state is assigned before \<^verbatim>\<open>initialState.plan_run_id\<close> throws.
\<close>

definition startPlanning_fetch :: "page \<Rightarrow> page" where
  "startPlanning_fetch s =
     s\<lparr>requests := requests s @ [StartRequest (formData s) (pollingInterval s)]\<rparr>"

definition startPlanning_resume :: "nat option \<Rightarrow> response \<Rightarrow> page \<Rightarrow> page" where
  "startPlanning_resume captured r s =
     (case r of
        NetworkError \<Rightarrow> s
      | Http status body \<Rightarrow>
          if response_ok status then
            (case body of
               None \<Rightarrow> s
             | Some initialState \<Rightarrow>
                 (case js_get initialState ''plan_run_id'' of
                    Inl e \<Rightarrow> s\<lparr>planState := initialState\<rparr>
                  | Inr planRunId \<Rightarrow>
                      (startPolling captured planRunId (s\<lparr>planState := initialState\<rparr>))
                      \<lparr>currentStep := 3\<rparr>))
          else s)"

text \<open>The handler of the button "Plan Another Trip" (lines 936 to 953).\<close>

definition reset :: "page \<Rightarrow> page" where
  "reset s =
     (case pollingInterval s of
        Some h \<Rightarrow> (clearInterval h s)\<lparr>pollingInterval := None\<rparr>
      | None \<Rightarrow> s)
     \<lparr>currentStep := 0, planState := JNull, formData := default_formData\<rparr>"

text \<open>
  The effect of lines 202 to 209 depends on \<^verbatim>\<open>pollingInterval\<close>: when a render commits
  another value, the cleanup of the previous effect clears the timer of the previous value.
\<close>

definition commit :: "page \<Rightarrow> page \<Rightarrow> page" where
  "commit old new =
     (if pollingInterval new = pollingInterval old then new
      else (case pollingInterval old of
              Some h \<Rightarrow> clearInterval h new
            | None \<Rightarrow> new))"

text \<open>
  What can happen to the page. \<^verbatim>\<open>renderStep\<close> decides which controls exist: step 0 has the
  two city inputs and a button bound to \<^verbatim>\<open>nextStep\<close>, disabled while a city is empty; step 1
  the two date inputs, a button bound to \<^verbatim>\<open>prevStep\<close> and one bound to \<^verbatim>\<open>nextStep\<close>,
  disabled while a date is empty; step 2 the two selects, a button bound to \<^verbatim>\<open>prevStep\<close> and
  one bound to \<^verbatim>\<open>startPlanning\<close>; step 3 no control; step 4 the button that resets. An
  event on a control that the current step does not show, or that is disabled, changes
  nothing. \<open>Tick h\<close> is a period of timer \<open>h\<close> elapsing, \<open>Respond k r\<close> the arrival of
  response \<open>r\<close> to the \<open>k\<close>-th request in flight.
\<close>

datatype event =
    SetOrigin string
  | SetDestination string
  | SetDepartureDate string
  | SetReturnDate string
  | SetCabinClass string
  | SetPassengers int
  | ClickNext
  | ClickBack
  | ClickStart
  | ClickReset
  | Tick nat
  | Respond nat response

fun dispatch :: "event \<Rightarrow> page \<Rightarrow> page" where
  "dispatch (SetOrigin v) s =
     (if currentStep s = 0 then s\<lparr>formData := (formData s)\<lparr>origin := v\<rparr>\<rparr> else s)"
| "dispatch (SetDestination v) s =
     (if currentStep s = 0 then s\<lparr>formData := (formData s)\<lparr>destination := v\<rparr>\<rparr> else s)"
| "dispatch (SetDepartureDate v) s =
     (if currentStep s = 1 then s\<lparr>formData := (formData s)\<lparr>departure_date := v\<rparr>\<rparr> else s)"
| "dispatch (SetReturnDate v) s =
     (if currentStep s = 1 then s\<lparr>formData := (formData s)\<lparr>return_date := v\<rparr>\<rparr> else s)"
| "dispatch (SetCabinClass v) s =
     (if currentStep s = 2 then s\<lparr>formData := (formData s)\<lparr>cabin_class := v\<rparr>\<rparr> else s)"
| "dispatch (SetPassengers n) s =
     (if currentStep s = 2 then s\<lparr>formData := (formData s)\<lparr>passengers := n\<rparr>\<rparr> else s)"
| "dispatch ClickNext s =
     (if currentStep s = 0 then
        (if origin (formData s) = [] then s
         else if destination (formData s) = [] then s
         else nextStep s)
      else if currentStep s = 1 then
        (if departure_date (formData s) = [] then s
         else if return_date (formData s) = [] then s
         else nextStep s)
      else s)"
| "dispatch ClickBack s =
     (if currentStep s = 1 then prevStep s
      else if currentStep s = 2 then prevStep s
      else s)"
| "dispatch ClickStart s = (if currentStep s = 2 then startPlanning_fetch s else s)"
| "dispatch ClickReset s = (if currentStep s = 4 then reset s else s)"
| "dispatch (Tick h) s =
     (case map_of (timers s) h of
        None \<Rightarrow> s
      | Some (planRunId, captured) \<Rightarrow> pollPlanState_fetch captured planRunId s)"
| "dispatch (Respond k r) s =
     (if k < length (requests s) then
        (case requests s ! k of
           StartRequest body captured \<Rightarrow>
             startPlanning_resume captured r
               (s\<lparr>requests := take k (requests s) @ drop (Suc k) (requests s)\<rparr>)
         | PollRequest planRunId captured \<Rightarrow>
             pollPlanState_resume captured r
               (s\<lparr>requests := take k (requests s) @ drop (Suc k) (requests s)\<rparr>))
      else s)"

definition react :: "event \<Rightarrow> page \<Rightarrow> page" where
  "react e s = commit s (dispatch e s)"

definition run :: "event list \<Rightarrow> page \<Rightarrow> page" where
  "run es s = foldl (\<lambda>s e. react e s) s es"

inductive reachable :: "page \<Rightarrow> bool" where
  at_mount: "reachable initial_page"
| after_event: "reachable s \<Longrightarrow> reachable (react e s)"

text \<open>The value that a request or a timer closed over.\<close>

fun captured_of :: "request \<Rightarrow> nat option" where
  "captured_of (StartRequest body captured) = captured"
| "captured_of (PollRequest planRunId captured) = captured"

text \<open>
  A session used in the examples: the user names two cities and two dates and starts the
  planning (\<open>submitted_trace\<close>); the service accepts the job as plan \<^verbatim>\<open>p1\<close>
  (\<open>polling_trace\<close>). \<open>complete_body\<close> is a status that reports the plan complete.
\<close>

definition submitted_trace :: "event list" where
  "submitted_trace =
     [SetOrigin ''Pune'', SetDestination ''Goa'', ClickNext,
      SetDepartureDate ''March 15'', SetReturnDate ''March 22'', ClickNext,
      ClickStart]"

definition polling_trace :: "event list" where
  "polling_trace =
     submitted_trace @
     [Respond 0 (Http 200 (Some (JObj [(''plan_run_id'', JStr ''p1''),
                                        (''state'', JStr ''PREPARING'')])))]"

definition complete_body :: jsval where
  "complete_body = JObj [(''plan_run_id'', JStr ''p1''), (''state'', JStr ''COMPLETE'')]"

section \<open>Properties of the renderer and the normalizer\<close>

lemma JSON_parse_departure_text: "JSON_parse departure_text = Inr departure_data"
  by code_simp

lemma JSON_parse_accommodation_text: "JSON_parse accommodation_text = Inr accommodation_data"
  by code_simp


lemma JSON_parse_oops: "JSON_parse ''oops'' = Inl SyntaxError"
  by code_simp

lemma JSON_parse_empty: "JSON_parse [] = Inl SyntaxError"
  by code_simp

lemma accommodation_text_nonempty: "accommodation_text \<noteq> []"
  by (simp add: accommodation_text_def)





text \<open>
  C4. On the \<^verbatim>\<open>final_output\<close> that is the JSON text of a departure flight, both variants
  of the normalizer parse the text, the airline of the departure flight resolves to
  \<^verbatim>\<open>Acme\<close>, and the total cost, in which the absent return flight and accommodation count
  as zero, is 1000. The normalizer reads nothing of the plan state but this field.
\<close>

theorem departure_flight_resolved:
  "travelData_of JSON_parse (JStr departure_text) = Inr departure_data
   \<and> travelData_of_typed JSON_parse (JStr departure_text) = departure_data
   \<and> opt_prop (opt_prop departure_data ''departureFlight'') ''Airline'' = JStr ''Acme''
   \<and> price_or_0 (opt_prop departure_data ''departureFlight'') = JNum 1000
   \<and> price_or_0 (opt_prop departure_data ''returnFlight'') = JNum 0
   \<and> price_or_0 (opt_prop departure_data ''accommodation'') = JNum 0
   \<and> totalCost departure_data = Inr (JNum 1000)"
  by (simp add: travelData_of_def travelData_of_typed_def parse_or_null_def
        JSON_parse_departure_text departure_data_def opt_prop_def totalCost_def
        price_or_0_def js_or_def)



text \<open>
  C2, as amended. When \<^verbatim>\<open>final_output\<close> is an object whose \<^verbatim>\<open>value\<close> is truthy, both
  variants resolve the travel data from it: a string is parsed, and a string that the
  parser rejects leaves no travel data; any other value is the travel data itself. When
  the parser rejects the string and \<^verbatim>\<open>final_output\<close> has no \<^verbatim>\<open>summary\<close> key, the summary
  is that string. On the wrapped accommodation text the hotel name resolves to \<^verbatim>\<open>X\<close> and
  the total cost is 500.
\<close>

theorem value_wrapper_resolved:
  assumes "map_of kvs ''value'' = Some v" and "truthy v"
  shows "travelData_of parse (JObj kvs) =
           Inr (case v of
                  JStr s \<Rightarrow> (case parse s of Inl e \<Rightarrow> JNull | Inr data \<Rightarrow> data)
                | _ \<Rightarrow> v)
    \<and> travelData_of_typed parse (JObj kvs) =
           (case v of
              JStr s \<Rightarrow> (case parse s of Inl e \<Rightarrow> JNull | Inr data \<Rightarrow> data)
            | _ \<Rightarrow> v)
    \<and> (\<forall>s e. v = JStr s \<and> parse s = Inl e \<and> map_of kvs ''summary'' = None \<longrightarrow>
          summary_of parse (JObj kvs) = Display (JStr s)
          \<and> summary_of_typed parse (JObj kvs) = Display (JStr s))
    \<and> travelData_of JSON_parse (JObj [(''value'', JStr accommodation_text)])
        = Inr accommodation_data
    \<and> travelData_of_typed JSON_parse (JObj [(''value'', JStr accommodation_text)])
        = accommodation_data
    \<and> opt_prop (opt_prop accommodation_data ''accommodation'') ''HotelName'' = JStr ''X''
    \<and> totalCost accommodation_data = Inr (JNum 500)"
proof -
  have cards: "travelData_of parse (JObj kvs) =
           Inr (case v of
                  JStr s \<Rightarrow> (case parse s of Inl e \<Rightarrow> JNull | Inr data \<Rightarrow> data)
                | _ \<Rightarrow> v)"
    using assms by (cases v) (simp_all add: travelData_of_def parse_or_null_def)
  have typed: "travelData_of_typed parse (JObj kvs) =
           (case v of
              JStr s \<Rightarrow> (case parse s of Inl e \<Rightarrow> JNull | Inr data \<Rightarrow> data)
            | _ \<Rightarrow> v)"
    using assms
    by (cases v) (simp_all add: travelData_of_typed_def parse_or_null_def opt_prop_def)
  have shown: "summary_of parse (JObj kvs) = Display (JStr s)
          \<and> summary_of_typed parse (JObj kvs) = Display (JStr s)"
    if "v = JStr s" "parse s = Inl e" "map_of kvs ''summary'' = None" for s e
    using that assms by (simp add: summary_of_def summary_of_typed_def opt_prop_def)
  have inst:
    "travelData_of JSON_parse (JObj [(''value'', JStr accommodation_text)])
       = Inr accommodation_data
     \<and> travelData_of_typed JSON_parse (JObj [(''value'', JStr accommodation_text)])
       = accommodation_data"
    by (simp add: travelData_of_def travelData_of_typed_def parse_or_null_def opt_prop_def
        JSON_parse_accommodation_text accommodation_text_nonempty)
  have total: "opt_prop (opt_prop accommodation_data ''accommodation'') ''HotelName'' = JStr ''X''
    \<and> totalCost accommodation_data = Inr (JNum 500)"
    by (simp add: accommodation_data_def opt_prop_def totalCost_def price_or_0_def js_or_def)
  show ?thesis
    using cards typed shown inst total by blast
qed

theorem value_wrapper_resolved_witness:
  "map_of [(''value'', JStr ''oops'')] ''value'' = Some (JStr ''oops'')
   \<and> truthy (JStr ''oops'')
   \<and> JSON_parse ''oops'' = Inl SyntaxError
   \<and> travelData_of JSON_parse (JObj [(''value'', JStr ''oops'')]) = Inr JNull
   \<and> travelData_of_typed JSON_parse (JObj [(''value'', JStr ''oops'')]) = JNull
   \<and> summary_of JSON_parse (JObj [(''value'', JStr ''oops'')]) = Display (JStr ''oops'')
   \<and> summary_of_typed JSON_parse (JObj [(''value'', JStr ''oops'')]) = Display (JStr ''oops'')"
  using value_wrapper_resolved [of "[(''value'', JStr ''oops'')]" "JStr ''oops''" JSON_parse]
    JSON_parse_oops
  by simp

text \<open>
  C2 as it is worded fails on two inputs. An object with a \<^verbatim>\<open>summary\<close> beside an
  unparsable \<^verbatim>\<open>value\<close> shows the summary, in both variants, not the raw string. And
  \<^verbatim>\<open>page.tsx\<close> tests the truthiness of \<^verbatim>\<open>value\<close>, so on the empty string, which the
  parser rejects, it takes the wrapping object as the travel data.
\<close>

theorem value_wrapper_counterexample:
  "JSON_parse ''oops'' = Inl SyntaxError
   \<and> summary_of JSON_parse (JObj [(''value'', JStr ''oops''), (''summary'', JStr ''S'')])
       = Display (JStr ''S'')
   \<and> summary_of_typed JSON_parse (JObj [(''value'', JStr ''oops''), (''summary'', JStr ''S'')])
       = Display (JStr ''S'')
   \<and> Display (JStr ''S'') \<noteq> Display (JStr ''oops'')
   \<and> JSON_parse [] = Inl SyntaxError
   \<and> travelData_of JSON_parse (JObj [(''value'', JStr [])]) = Inr (JObj [(''value'', JStr [])])
   \<and> Inr (JObj [(''value'', JStr [])]) \<noteq> (Inr JNull :: js_error + jsval)"
  by (simp add: JSON_parse_oops JSON_parse_empty summary_of_def summary_of_typed_def
        travelData_of_def opt_prop_def)

section \<open>Properties of the wizard and the poller\<close>

lemma clearInterval_fields [simp]:
  "currentStep (clearInterval h s) = currentStep s"
  "formData (clearInterval h s) = formData s"
  "planState (clearInterval h s) = planState s"
  "pollingInterval (clearInterval h s) = pollingInterval s"
  "requests (clearInterval h s) = requests s"
  "next_timer (clearInterval h s) = next_timer s"
  "status_fetches (clearInterval h s) = status_fetches s"
  "timers (clearInterval h s) = filter (\<lambda>t. fst t \<noteq> h) (timers s)"
  by (simp_all add: clearInterval_def)

lemma commit_fields [simp]:
  "currentStep (commit old new) = currentStep new"
  "formData (commit old new) = formData new"
  "planState (commit old new) = planState new"
  "pollingInterval (commit old new) = pollingInterval new"
  "requests (commit old new) = requests new"
  "next_timer (commit old new) = next_timer new"
  "status_fetches (commit old new) = status_fetches new"
  by (simp_all add: commit_def split: option.splits)

lemma timers_commit:
  "timers (commit old new) =
     (if pollingInterval new = pollingInterval old then timers new
      else case pollingInterval old of
             Some h \<Rightarrow> filter (\<lambda>t. fst t \<noteq> h) (timers new)
           | None \<Rightarrow> timers new)"
  by (simp add: commit_def split: option.splits)

lemma terminal_not_nullish: "terminal state \<Longrightarrow> \<exists>m. js_get state ''status_message'' = Inr m"
  by (cases state) (simp_all add: terminal_def opt_prop_def)

subsection \<open>The example session\<close>

lemma run_submitted_trace:
  "run submitted_trace initial_page =
     \<lparr>currentStep = 2,
      formData = \<lparr>origin = ''Pune'', destination = ''Goa'', departure_date = ''March 15'',
                  return_date = ''March 22'', cabin_class = ''economy'', passengers = 1\<rparr>,
      planState = JNull, pollingInterval = None, timers = [],
      requests = [StartRequest
                    \<lparr>origin = ''Pune'', destination = ''Goa'', departure_date = ''March 15'',
                     return_date = ''March 22'', cabin_class = ''economy'', passengers = 1\<rparr>
                    None],
      next_timer = 1, status_fetches = []\<rparr>"
  by (simp add: submitted_trace_def run_def react_def initial_page_def default_formData_def
        nextStep_def steps_def startPlanning_fetch_def commit_def)

lemma run_append: "run (es @ es') s = run es' (run es s)"
  by (simp add: run_def)

lemma run_polling_trace:
  "run polling_trace initial_page =
     \<lparr>currentStep = 3,
      formData = \<lparr>origin = ''Pune'', destination = ''Goa'', departure_date = ''March 15'',
                  return_date = ''March 22'', cabin_class = ''economy'', passengers = 1\<rparr>,
      planState = JObj [(''plan_run_id'', JStr ''p1''), (''state'', JStr ''PREPARING'')],
      pollingInterval = Some 1, timers = [(1, JStr ''p1'', None)],
      requests = [PollRequest (JStr ''p1'') None], next_timer = 2,
      status_fetches = [JStr ''p1'']\<rparr>"
  by (simp add: polling_trace_def run_append run_submitted_trace)
    (simp add: run_def react_def startPlanning_resume_def response_ok_def
        startPolling_def pollPlanState_fetch_def commit_def Let_def)

lemma reachable_run: "reachable s \<Longrightarrow> reachable (run es s)"
  by (induction es arbitrary: s) (simp_all add: run_def reachable.after_event)

subsection \<open>The step stays in range\<close>

lemma currentStep_pollPlanState_resume:
  "currentStep s \<le> 4 \<Longrightarrow> currentStep (pollPlanState_resume c r s) \<le> 4"
  by (simp add: pollPlanState_resume_def split: response.splits option.splits sum.splits)

lemma currentStep_startPlanning_resume:
  "currentStep s \<le> 4 \<Longrightarrow> currentStep (startPlanning_resume c r s) \<le> 4"
  by (simp add: startPlanning_resume_def startPolling_def pollPlanState_fetch_def Let_def
      split: response.splits option.splits sum.splits)

lemma currentStep_dispatch: "currentStep s \<le> 4 \<Longrightarrow> currentStep (dispatch e s) \<le> 4"
  by (cases e)
    (auto simp: nextStep_def prevStep_def steps_def startPlanning_fetch_def reset_def
       pollPlanState_fetch_def currentStep_pollPlanState_resume currentStep_startPlanning_resume
     split: option.splits request.splits)

lemma currentStep_react: "currentStep s \<le> 4 \<Longrightarrow> currentStep (react e s) \<le> 4"
  by (simp add: react_def currentStep_dispatch)

lemma reachable_currentStep: "reachable s \<Longrightarrow> currentStep s \<le> 4"
  by (induction rule: reachable.induct) (simp_all add: initial_page_def currentStep_react)

text \<open>
  C9. In every state the page can reach, \<^verbatim>\<open>currentStep\<close> is one of 0 to 4; \<^verbatim>\<open>nextStep\<close>
  adds one and stops at 4, \<^verbatim>\<open>prevStep\<close> subtracts one and stops at 0, an accepted
  submission sets 3, a terminal poll response sets 4, the reset sets 0, and whatever
  happens next leaves the step in the range.
\<close>

theorem currentStep_in_range:
  assumes "reachable s"
  shows "currentStep s \<in> {0, 1, 2, 3, 4}
    \<and> currentStep (nextStep s) = min (currentStep s + 1) 4
    \<and> currentStep (prevStep s) = (if currentStep s = 0 then 0 else currentStep s - 1)
    \<and> (\<forall>c status initialState.
          response_ok status \<and> initialState \<noteq> JNull \<and> initialState \<noteq> JUndefined \<longrightarrow>
          currentStep (startPlanning_resume c (Http status (Some initialState)) s) = 3)
    \<and> (\<forall>c status state.
          response_ok status \<and> terminal state \<longrightarrow>
          currentStep (pollPlanState_resume c (Http status (Some state)) s) = 4)
    \<and> currentStep (reset s) = 0
    \<and> (\<forall>e. currentStep (react e s) \<in> {0, 1, 2, 3, 4})"
proof -
  have le: "currentStep s \<le> 4"
    using assms by (rule reachable_currentStep)
  have range: "n \<in> {0, 1, 2, 3, 4} \<longleftrightarrow> n \<le> 4" for n :: nat
    by auto
  have submit: "currentStep (startPlanning_resume c (Http status (Some initialState)) s) = 3"
    if "response_ok status" "initialState \<noteq> JNull" "initialState \<noteq> JUndefined"
    for c status initialState
    using that
    by (cases initialState)
      (simp_all add: startPlanning_resume_def startPolling_def pollPlanState_fetch_def Let_def
        split: option.splits)
  have poll: "currentStep (pollPlanState_resume c (Http status (Some state)) s) = 4"
    if "response_ok status" "terminal state" for c status state
    using that terminal_not_nullish [of state]
    by (auto simp: pollPlanState_resume_def split: option.splits)
  show ?thesis
    using le submit poll currentStep_react [of s]
    by (simp only: range)
      (auto simp: nextStep_def prevStep_def steps_def reset_def split: option.splits)
qed

theorem currentStep_in_range_witness:
  "reachable (run polling_trace initial_page)
   \<and> currentStep (run polling_trace initial_page) = 3
   \<and> currentStep (nextStep (run polling_trace initial_page)) = 4
   \<and> currentStep (prevStep (run polling_trace initial_page)) = 2
   \<and> currentStep (reset (run polling_trace initial_page)) = 0"
proof -
  have r: "reachable (run polling_trace initial_page)"
    by (intro reachable_run reachable.at_mount)
  show ?thesis
    using r currentStep_in_range [OF r]
    by (simp add: run_polling_trace)
qed

subsection \<open>Who moves the page to the results\<close>

lemma startPlanning_resume_step:
  "currentStep (startPlanning_resume c r s) = currentStep s
   \<or> currentStep (startPlanning_resume c r s) = 3"
  by (simp add: startPlanning_resume_def startPolling_def pollPlanState_fetch_def Let_def
      split: response.splits option.splits sum.splits)

lemma pollPlanState_resume_step:
  "currentStep (pollPlanState_resume c r s) = currentStep s
   \<or> (\<exists>status state. r = Http status (Some state) \<and> response_ok status \<and> terminal state)"
  by (cases r) (auto simp: pollPlanState_resume_def split: option.splits sum.splits)

text \<open>
  C3. A click on the button bound to \<^verbatim>\<open>nextStep\<close> never brings the page to step 4. Whatever
  the state, the only event that takes the page from another step to step 4 is a response to
  a status request with a status from 200 to 299 and a body whose \<^verbatim>\<open>state\<close> is
  \<^verbatim>\<open>COMPLETE\<close> or \<^verbatim>\<open>FAILED\<close>; and such a response sets step 4 from any step.
\<close>

theorem results_only_by_terminal_poll:
  "(currentStep (react ClickNext s) = 4 \<longrightarrow> currentStep s = 4)
   \<and> (currentStep s \<noteq> 4 \<and> currentStep (react e s) = 4 \<longrightarrow>
        (\<exists>k status state planRunId captured.
           e = Respond k (Http status (Some state)) \<and> k < length (requests s)
           \<and> requests s ! k = PollRequest planRunId captured
           \<and> response_ok status \<and> terminal state))
   \<and> (j < length (requests s) \<and> requests s ! j = PollRequest p c
        \<and> response_ok code \<and> terminal body \<longrightarrow>
        currentStep (react (Respond j (Http code (Some body))) s) = 4)"
proof -
  have manual: "currentStep (react ClickNext s) = 4 \<longrightarrow> currentStep s = 4"
    by (auto simp: react_def nextStep_def steps_def split: if_splits)
  have only: "\<exists>k status state planRunId captured.
           e = Respond k (Http status (Some state)) \<and> k < length (requests s)
           \<and> requests s ! k = PollRequest planRunId captured
           \<and> response_ok status \<and> terminal state"
    if ne: "currentStep s \<noteq> 4" and eq: "currentStep (react e s) = 4"
  proof (cases e)
    case (Respond k r)
    define s' where "s' = s\<lparr>requests := take k (requests s) @ drop (Suc k) (requests s)\<rparr>"
    have same: "currentStep s' = currentStep s"
      by (simp add: s'_def)
    have k: "k < length (requests s)"
      using ne eq by (auto simp: Respond react_def split: if_splits)
    show ?thesis
    proof (cases "requests s ! k")
      case (StartRequest b c)
      then have "currentStep (react e s) = currentStep (startPlanning_resume c r s')"
        using k by (simp add: Respond react_def s'_def)
      with startPlanning_resume_step [of c r s'] same ne eq show ?thesis
        by auto
    next
      case (PollRequest planRunId c)
      then have "currentStep (react e s) = currentStep (pollPlanState_resume c r s')"
        using k by (simp add: Respond react_def s'_def)
      with pollPlanState_resume_step [of c r s'] same ne eq
      obtain status state
        where "r = Http status (Some state)" "response_ok status" "terminal state"
        by auto
      with Respond k PollRequest show ?thesis
        by blast
    qed
  next
    case ClickNext
    with manual ne eq show ?thesis by simp
  next
    case ClickBack
    with ne eq show ?thesis
      by (auto simp: react_def prevStep_def split: if_splits)
  next
    case ClickReset
    with ne eq show ?thesis
      by (auto simp: react_def split: if_splits)
  next
    case ClickStart
    with ne eq show ?thesis
      by (auto simp: react_def startPlanning_fetch_def split: if_splits)
  next
    case (Tick h)
    with ne eq show ?thesis
      by (auto simp: react_def pollPlanState_fetch_def split: option.splits)
  qed (use ne eq in \<open>auto simp: react_def split: if_splits\<close>)
  have forced: "currentStep (react (Respond j (Http code (Some body))) s) = 4"
    if "j < length (requests s)" "requests s ! j = PollRequest p c"
      "response_ok code" "terminal body"
    using that terminal_not_nullish [of body]
    by (auto simp: react_def pollPlanState_resume_def split: option.splits)
  show ?thesis
    using manual only forced by blast
qed

theorem results_only_by_terminal_poll_witness:
  "currentStep (run polling_trace initial_page) = 3
   \<and> requests (run polling_trace initial_page) ! 0 = PollRequest (JStr ''p1'') None
   \<and> response_ok 200 \<and> terminal complete_body
   \<and> currentStep (react ClickNext (run polling_trace initial_page)) \<noteq> 4
   \<and> currentStep (react (Respond 0 (Http 200 (Some complete_body)))
         (run polling_trace initial_page)) = 4"
  using results_only_by_terminal_poll
    [of "run polling_trace initial_page" ClickNext 0 "JStr ''p1''" None 200 complete_body]
  by (auto simp: run_polling_trace response_ok_def terminal_def complete_body_def opt_prop_def)

subsection \<open>Failed requests\<close>

text \<open>
  C7. A response to a status request with a status outside 200 to 299, 404 among them, ends
  \<^verbatim>\<open>pollPlanState\<close> with the state as it was: the plan state, the step, the interval handle
  and the set of active timers are unchanged and no request is issued, and the next period of
  any active timer issues the next status request.
\<close>

theorem poll_failure_skips_tick:
  assumes "\<not> response_ok status"
    and "k < length (requests s)"
    and "requests s ! k = PollRequest planRunId captured"
  shows "pollPlanState_resume captured (Http status body) s = s
    \<and> planState (react (Respond k (Http status body)) s) = planState s
    \<and> currentStep (react (Respond k (Http status body)) s) = currentStep s
    \<and> pollingInterval (react (Respond k (Http status body)) s) = pollingInterval s
    \<and> timers (react (Respond k (Http status body)) s) = timers s
    \<and> status_fetches (react (Respond k (Http status body)) s) = status_fetches s
    \<and> (\<forall>h p c. map_of (timers s) h = Some (p, c) \<longrightarrow>
          status_fetches (react (Tick h) (react (Respond k (Http status body)) s))
            = status_fetches s @ [p])"
proof -
  have same: "pollPlanState_resume c (Http status body) t = t" for c t
    using assms(1) by (simp add: pollPlanState_resume_def)
  have after: "react (Respond k (Http status body)) s
      = s\<lparr>requests := take k (requests s) @ drop (Suc k) (requests s)\<rparr>"
    using assms(2,3) by (simp add: react_def same commit_def)
  show ?thesis
    unfolding after by (simp add: same react_def pollPlanState_fetch_def)
qed

theorem poll_failure_skips_tick_witness:
  "\<not> response_ok 404
   \<and> requests (run polling_trace initial_page) ! 0 = PollRequest (JStr ''p1'') None
   \<and> planState (react (Respond 0 (Http 404 None)) (run polling_trace initial_page))
       = planState (run polling_trace initial_page)
   \<and> currentStep (react (Respond 0 (Http 404 None)) (run polling_trace initial_page)) = 3
   \<and> timers (react (Respond 0 (Http 404 None)) (run polling_trace initial_page))
       = [(1, JStr ''p1'', None)]
   \<and> status_fetches
        (react (Tick 1) (react (Respond 0 (Http 404 None)) (run polling_trace initial_page)))
       = [JStr ''p1'', JStr ''p1'']"
  using poll_failure_skips_tick
    [of 404 0 "run polling_trace initial_page" "JStr ''p1''" None None]
  by (simp add: run_polling_trace response_ok_def)

text \<open>
  C8. A response to the submission with a status outside 200 to 299 ends
  \<^verbatim>\<open>startPlanning\<close> in its \<^verbatim>\<open>catch\<close> with the state as it was: no plan state is stored, no
  timer is created, no status request is issued, and the step is unchanged.
\<close>

theorem submission_failure_changes_nothing:
  assumes "\<not> response_ok status"
    and "k < length (requests s)"
    and "requests s ! k = StartRequest body captured"
  shows "startPlanning_resume captured (Http status text) s = s
    \<and> react (Respond k (Http status text)) s
        = s\<lparr>requests := take k (requests s) @ drop (Suc k) (requests s)\<rparr>
    \<and> planState (react (Respond k (Http status text)) s) = planState s
    \<and> currentStep (react (Respond k (Http status text)) s) = currentStep s
    \<and> pollingInterval (react (Respond k (Http status text)) s) = pollingInterval s
    \<and> timers (react (Respond k (Http status text)) s) = timers s
    \<and> status_fetches (react (Respond k (Http status text)) s) = status_fetches s"
proof -
  have same: "startPlanning_resume c (Http status text) t = t" for c t
    using assms(1) by (simp add: startPlanning_resume_def)
  have after: "react (Respond k (Http status text)) s
      = s\<lparr>requests := take k (requests s) @ drop (Suc k) (requests s)\<rparr>"
    using assms(2,3) by (simp add: react_def same commit_def)
  show ?thesis
    by (simp add: same after)
qed

theorem submission_failure_changes_nothing_witness:
  "\<not> response_ok 500
   \<and> currentStep (react (Respond 0 (Http 500 None)) (run submitted_trace initial_page)) = 2
   \<and> planState (react (Respond 0 (Http 500 None)) (run submitted_trace initial_page)) = JNull
   \<and> timers (react (Respond 0 (Http 500 None)) (run submitted_trace initial_page)) = []
   \<and> status_fetches (react (Respond 0 (Http 500 None)) (run submitted_trace initial_page))
       = []"
  using submission_failure_changes_nothing
    [of 500 0 "run submitted_trace initial_page" _ None None]
  by (simp add: run_submitted_trace response_ok_def)

subsection \<open>The reset\<close>

lemma timers_owned_react:
  assumes "\<forall>t \<in> set (timers s). pollingInterval s = Some (fst t)"
  shows "\<forall>t \<in> set (timers (react e s)). pollingInterval (react e s) = Some (fst t)"
proof (cases e)
  case (Respond k r)
  show ?thesis
    using assms
    by (auto simp: Respond react_def timers_commit startPlanning_resume_def
          pollPlanState_resume_def startPolling_def pollPlanState_fetch_def Let_def
        split: request.splits response.splits option.splits sum.splits if_splits)
next
  case ClickReset
  show ?thesis
    using assms
    by (auto simp: ClickReset react_def timers_commit reset_def split: option.splits if_splits)
qed (use assms in \<open>auto simp: react_def timers_commit nextStep_def prevStep_def
       startPlanning_fetch_def pollPlanState_fetch_def split: option.splits if_splits\<close>)

text \<open>In a reachable state the only timer that can be active is the one in the state.\<close>

lemma reachable_timers_owned:
  "reachable s \<Longrightarrow> \<forall>t \<in> set (timers s). pollingInterval s = Some (fst t)"
proof (induction rule: reachable.induct)
  case at_mount
  show ?case by (simp add: initial_page_def)
next
  case (after_event s e)
  from after_event.IH show ?case by (rule timers_owned_react)
qed

text \<open>
  C6. From any state whatever, the reset yields step 0, the default form data, no plan state
  and no interval handle, and the timer of the handle it found is no longer active; in every
  state the page can reach that leaves no timer active at all. At step 4, where the button
  is, the click is the reset.
\<close>

theorem reset_restores_defaults:
  "currentStep (reset s) = 0
   \<and> formData (reset s) =
       \<lparr>origin = [], destination = [], departure_date = [], return_date = [],
        cabin_class = ''economy'', passengers = 1\<rparr>
   \<and> planState (reset s) = JNull
   \<and> pollingInterval (reset s) = None
   \<and> (\<forall>h. pollingInterval s = Some h \<longrightarrow> h \<notin> fst ` set (timers (reset s)))
   \<and> (reachable s \<longrightarrow> timers (reset s) = [])
   \<and> (reachable s \<and> currentStep s = 4 \<longrightarrow>
        react ClickReset s = reset s \<and> timers (react ClickReset s) = [])"
proof -
  have owned: "timers (reset s) = []" if "reachable s"
  proof (cases "pollingInterval s")
    case None
    with reachable_timers_owned [OF that] have "timers s = []"
      by (cases "timers s") auto
    with None show ?thesis by (simp add: reset_def)
  next
    case (Some h)
    with reachable_timers_owned [OF that] have "\<forall>t \<in> set (timers s). fst t = h"
      by auto
    then have "filter (\<lambda>t. fst t \<noteq> h) (timers s) = []"
      by (simp add: filter_empty_conv)
    with Some show ?thesis by (simp add: reset_def)
  qed
  have click: "react ClickReset s = reset s" if "reachable s" "currentStep s = 4"
  proof -
    have "commit s (reset s) = reset s"
      using owned [OF that(1)]
      by (cases "pollingInterval s") (simp_all add: commit_def reset_def clearInterval_def)
    with that(2) show ?thesis by (simp add: react_def)
  qed
  show ?thesis
    using owned click
    by (auto simp: reset_def default_formData_def split: option.splits)
qed

theorem reset_restores_defaults_witness:
  "reachable (react (Respond 0 (Http 200 (Some complete_body))) (run polling_trace initial_page))
   \<and> pollingInterval
        (react (Respond 0 (Http 200 (Some complete_body))) (run polling_trace initial_page))
       = Some 1
   \<and> timers
        (react (Respond 0 (Http 200 (Some complete_body))) (run polling_trace initial_page))
       = [(1, JStr ''p1'', None)]
   \<and> timers
        (reset (react (Respond 0 (Http 200 (Some complete_body)))
                  (run polling_trace initial_page)))
       = []
   \<and> currentStep
        (reset (react (Respond 0 (Http 200 (Some complete_body)))
                  (run polling_trace initial_page)))
       = 0"
proof -
  have r: "reachable
      (react (Respond 0 (Http 200 (Some complete_body))) (run polling_trace initial_page))"
    by (intro reachable.after_event reachable_run reachable.at_mount)
  show ?thesis
    using r reset_restores_defaults
      [of "react (Respond 0 (Http 200 (Some complete_body))) (run polling_trace initial_page)"]
    by (simp add: run_polling_trace react_def complete_body_def terminal_def opt_prop_def
        pollPlanState_resume_def response_ok_def commit_def)
qed

subsection \<open>The timer after a terminal response\<close>

lemma pollPlanState_resume_None:
  "timers (pollPlanState_resume None r s) = timers s
   \<and> requests (pollPlanState_resume None r s) = requests s
   \<and> pollingInterval (pollPlanState_resume None r s) = pollingInterval s
   \<and> (currentStep (pollPlanState_resume None r s) = currentStep s
        \<or> currentStep (pollPlanState_resume None r s) = 4)"
  by (simp add: pollPlanState_resume_def split: response.splits option.splits sum.splits)

lemma startPlanning_resume_None:
  "(timers (startPlanning_resume None r s) = timers s
    \<and> requests (startPlanning_resume None r s) = requests s
    \<and> pollingInterval (startPlanning_resume None r s) = pollingInterval s
    \<and> currentStep (startPlanning_resume None r s) = currentStep s)
   \<or> (\<exists>p. timers (startPlanning_resume None r s) = timers s @ [(next_timer s, p, None)]
         \<and> requests (startPlanning_resume None r s) = requests s @ [PollRequest p None]
         \<and> pollingInterval (startPlanning_resume None r s) = Some (next_timer s)
         \<and> currentStep (startPlanning_resume None r s) = 3)"
  by (simp add: startPlanning_resume_def startPolling_def pollPlanState_fetch_def Let_def
      split: response.splits option.splits sum.splits)

lemma closures_react:
  assumes step: "currentStep s \<le> 2 \<longrightarrow> pollingInterval s = None"
    and tm: "\<forall>h p c. (h, p, c) \<in> set (timers s) \<longrightarrow> c = None"
    and rq: "\<forall>q \<in> set (requests s). captured_of q = None"
  shows "(currentStep (react e s) \<le> 2 \<longrightarrow> pollingInterval (react e s) = None)
    \<and> (\<forall>h p c. (h, p, c) \<in> set (timers (react e s)) \<longrightarrow> c = None)
    \<and> (\<forall>q \<in> set (requests (react e s)). captured_of q = None)"
proof (cases e)
  case (Respond k r)
  show ?thesis
  proof (cases "k < length (requests s)")
    case False
    with assms show ?thesis by (simp add: Respond react_def commit_def)
  next
    case True
    define s' where "s' = s\<lparr>requests := take k (requests s) @ drop (Suc k) (requests s)\<rparr>"
    have none: "captured_of (requests s ! k) = None"
      using rq True by simp
    have rq': "\<forall>q \<in> set (requests s'). captured_of q = None"
      unfolding s'_def using rq by (auto dest: in_set_takeD in_set_dropD)
    have flds: "timers s' = timers s" "pollingInterval s' = pollingInterval s"
      "currentStep s' = currentStep s"
      by (simp_all add: s'_def)
    show ?thesis
    proof (cases "requests s ! k")
      case (StartRequest b c)
      with none have c: "c = None" by simp
      have d: "dispatch e s = startPlanning_resume None r s'"
        using True StartRequest c by (simp add: Respond s'_def)
      show ?thesis
        using startPlanning_resume_None [of r s'] step tm rq' flds
        unfolding react_def d
        by (auto simp: timers_commit split: option.splits)
    next
      case (PollRequest p c)
      with none have c: "c = None" by simp
      have d: "dispatch e s = pollPlanState_resume None r s'"
        using True PollRequest c by (simp add: Respond s'_def)
      show ?thesis
        using pollPlanState_resume_None [of r s'] step tm rq' flds
        unfolding react_def d
        by (auto simp: timers_commit split: option.splits)
    qed
  qed
next
  case (Tick h)
  show ?thesis
  proof (cases "map_of (timers s) h")
    case None
    with assms show ?thesis by (simp add: Tick react_def commit_def)
  next
    case (Some pc)
    then have "(h, pc) \<in> set (timers s)"
      by (rule map_of_SomeD)
    with tm have "snd pc = None" by (cases pc) auto
    with Some assms show ?thesis
      by (cases pc) (auto simp: Tick react_def commit_def pollPlanState_fetch_def)
  qed
next
  case ClickReset
  with assms show ?thesis
    by (auto simp: react_def timers_commit reset_def split: option.splits if_splits)
next
  case ClickStart
  with assms show ?thesis
    by (auto simp: react_def commit_def startPlanning_fetch_def)
next
  case ClickNext
  with assms show ?thesis
    by (auto simp: react_def commit_def nextStep_def steps_def)
next
  case ClickBack
  with assms show ?thesis
    by (auto simp: react_def commit_def prevStep_def)
qed (use assms in \<open>simp_all add: react_def commit_def\<close>)

text \<open>
  The steps that show the button bound to \<^verbatim>\<open>startPlanning\<close> are steps without an interval
  handle, so every request and every timer of a reachable state closed over \<^verbatim>\<open>null\<close>.
\<close>

lemma reachable_closures:
  "reachable s \<Longrightarrow>
     (currentStep s \<le> 2 \<longrightarrow> pollingInterval s = None)
     \<and> (\<forall>h p c. (h, p, c) \<in> set (timers s) \<longrightarrow> c = None)
     \<and> (\<forall>q \<in> set (requests s). captured_of q = None)"
proof (induction rule: reachable.induct)
  case at_mount
  show ?case by (simp add: initial_page_def)
next
  case (after_event s e)
  then show ?case using closures_react [of s e] by blast
qed

text \<open>
  Hence no response to a status request, terminal or not, clears a timer in any state the
  page can reach: the test \<^verbatim>\<open>if (pollingInterval)\<close> of line 168 reads the \<^verbatim>\<open>null\<close> of the
  render that started the polling.
\<close>

lemma poll_response_never_cancels:
  assumes "reachable s" and "k < length (requests s)"
    and "requests s ! k = PollRequest planRunId captured"
  shows "timers (react (Respond k r) s) = timers s"
proof -
  have "captured_of (requests s ! k) = None"
    using reachable_closures [OF assms(1)] assms(2) by simp
  with assms(3) have "captured = None" by simp
  with assms(2,3) show ?thesis
    using pollPlanState_resume_None
      [of r "s\<lparr>requests := take k (requests s) @ drop (Suc k) (requests s)\<rparr>"]
    by (simp add: react_def timers_commit)
qed

text \<open>\<^verbatim>\<open>startPolling\<close> itself issues one status request, for the plan it is given.\<close>

lemma startPolling_fetches_once:
  "status_fetches (startPolling captured planRunId s) = status_fetches s @ [planRunId]"
  by (simp add: startPolling_def pollPlanState_fetch_def Let_def split: option.splits)

text \<open>
  C1, evaluated on the example session. When the service accepts the job, exactly one status
  request has been issued, before any period of the timer has elapsed. The response to it
  reports the plan complete: the plan state is stored and the step is 4, but timer 1 is
  still active, and when its next period elapses a second status request goes out.
\<close>

theorem timer_survives_COMPLETE:
  "status_fetches (run polling_trace initial_page) = [JStr ''p1'']
   \<and> terminal complete_body
   \<and> planState (react (Respond 0 (Http 200 (Some complete_body)))
        (run polling_trace initial_page)) = complete_body
   \<and> currentStep (react (Respond 0 (Http 200 (Some complete_body)))
        (run polling_trace initial_page)) = 4
   \<and> timers (react (Respond 0 (Http 200 (Some complete_body)))
        (run polling_trace initial_page)) = [(1, JStr ''p1'', None)]
   \<and> status_fetches (react (Respond 0 (Http 200 (Some complete_body)))
        (run polling_trace initial_page)) = [JStr ''p1'']
   \<and> status_fetches
        (react (Tick 1)
           (react (Respond 0 (Http 200 (Some complete_body)))
              (run polling_trace initial_page)))
       = [JStr ''p1'', JStr ''p1'']"
  by (simp add: run_polling_trace react_def complete_body_def terminal_def opt_prop_def
        pollPlanState_resume_def response_ok_def commit_def pollPlanState_fetch_def)

end
